theory Spec2Isabelle
  imports Main
begin

section \<open>Data model\<close>

text \<open>
  The repository holds three controllers, \<open>HistoricoFinanceiroController\<close>,
  \<open>ArquivoAssociadoController\<close> and \<open>HistoricoAssociadoController\<close>. Their text is the
  same up to the name of the model class, of the validator, of the local variable
  (\<open>historico\<close> or \<open>arquivo\<close>) and of the foreign-key field (\<open>financeiroId\<close>,
  \<open>associadoId\<close>, \<open>historicoId\<close>). One embedding, with the entity as a parameter, stands
  for the three.
\<close>

datatype entidade = HistoricoFinanceiro | ArquivoAssociado | HistoricoAssociado

text \<open>The name of the local variable holding the record in \<open>atualizar\<close> and \<open>ativar\<close>.\<close>

fun variavel :: "entidade \<Rightarrow> string" where
  "variavel HistoricoFinanceiro = ''historico''"
| "variavel ArquivoAssociado = ''arquivo''"
| "variavel HistoricoAssociado = ''historico''"

text \<open>
  The value of an audit field: JavaScript's \<open>undefined\<close> (the property is absent),
  \<open>null\<close>, or a string.
\<close>

datatype jsval = Undefined | Null | Str string

record usuario =
  nome :: string

text \<open>\<open>auth.user?.nome\<close>: \<open>undefined\<close> when there is no user.\<close>

fun nome_opcional :: "usuario option \<Rightarrow> jsval" where
  "nome_opcional None = Undefined"
| "nome_opcional (Some u) = Str (nome u)"

text \<open>The operator \<open>??\<close>: the right operand when the left one is \<open>undefined\<close> or \<open>null\<close>.\<close>

fun coalescer :: "jsval \<Rightarrow> jsval \<Rightarrow> jsval" where
  "coalescer Undefined d = d"
| "coalescer Null d = d"
| "coalescer (Str s) d = Str s"

text \<open>The two fields that the validator extracts from the request body.\<close>

record validado =
  v_fkId :: int
  v_documento :: string

text \<open>
  A row of an entity's table. \<open>fkId\<close> is \<open>financeiroId\<close>, \<open>associadoId\<close> or
  \<open>historicoId\<close>; \<open>ident\<close> is the primary key \<open>id\<close>.
\<close>

record registro =
  ident :: int
  fkId :: int
  documento :: string
  ativo :: bool
  createdBy :: jsval
  updatedBy :: jsval

text \<open>
  A JavaScript object holding a record is either an instance of the model class, which
  inherits the methods of the class (\<open>save\<close> among them) from its prototype, or a plain
  object written as an object literal, which has its own properties only.
\<close>

datatype objeto = Instancia registro | Literal registro

datatype erro =
    ValidationException string
  | RowNotFound
  | CustomErrorException string nat
  | TypeError string
  | OutroErro string

section \<open>Collaborators\<close>

text \<open>The calls a controller makes to the store.\<close>

datatype chamada = ChCreate | ChFindOrFail | ChSave | ChQuery

text \<open>
  What a request brings and what its collaborators answer: the outcome of
  \<open>request.validate\<close>, \<open>params.id\<close>, \<open>auth.user\<close>, and for each call to the store the
  error it throws, if any, for a reason of its own (the database is unreachable, a
  constraint is violated).
\<close>

record ctx =
  validacao :: "erro + validado"
  params_id :: int
  auth_user :: "usuario option"
  falha :: "chamada \<Rightarrow> erro option"

text \<open>The database: for each entity its rows, in the order of insertion, and its next key.\<close>

record banco =
  linhas :: "entidade \<Rightarrow> registro list"
  sequencia :: "entidade \<Rightarrow> int"

text \<open>
  A computation that reads and writes the database and either returns a value or throws
  an error. The database as it is at the moment of the throw is kept.
\<close>

type_synonym 'a acao = "banco \<Rightarrow> (erro + 'a) \<times> banco"

definition retornar :: "'a \<Rightarrow> 'a acao" where
  "retornar x bd = (Inr x, bd)"

definition lancar :: "erro \<Rightarrow> 'a acao" where
  "lancar err bd = (Inl err, bd)"

definition ligar :: "'a acao \<Rightarrow> ('a \<Rightarrow> 'b acao) \<Rightarrow> 'b acao" where
  "ligar m f bd = (case m bd of (Inl err, bd') \<Rightarrow> (Inl err, bd') | (Inr x, bd') \<Rightarrow> f x bd')"

text \<open>\<open>try { m } catch (error) { h error }\<close>.\<close>

definition tentar :: "'a acao \<Rightarrow> (erro \<Rightarrow> 'a acao) \<Rightarrow> 'a acao" where
  "tentar m h bd = (case m bd of (Inl err, bd') \<Rightarrow> h err bd' | (Inr x, bd') \<Rightarrow> (Inr x, bd'))"

text \<open>\<open>request.validate(Validator)\<close>: the validator's answer, without touching the store.\<close>

definition validate :: "ctx \<Rightarrow> validado acao" where
  "validate cx bd = (case validacao cx of Inl err \<Rightarrow> (Inl err, bd) | Inr v \<Rightarrow> (Inr v, bd))"

text \<open>
  The model classes under \<open>App/Models\<close>, the validators under \<open>App/Validators\<close> and
  \<open>App/Exceptions/CustomErrorException\<close> are imported by the controllers. The outcome of
  a validator is taken from the request context, the exception is a constructor of
  \<open>erro\<close> holding its two arguments, and the static and instance methods of a model class
  follow the contract of the store.
\<close>

text \<open>
  Modelled from the spec: \<open>create(fields) -> record\<close>, the static method \<open>create\<close> of a
  model class. The store assigns a new identifier and \<open>active\<close> defaults to true at
  creation; the fields given by the caller are kept as given.
\<close>

definition create :: "ctx \<Rightarrow> entidade \<Rightarrow> validado \<Rightarrow> jsval \<Rightarrow> registro acao" where
  "create cx e v cb bd =
     (case falha cx ChCreate of
        Some err \<Rightarrow> (Inl err, bd)
      | None \<Rightarrow>
          (let r = \<lparr>ident = sequencia bd e, fkId = v_fkId v, documento = v_documento v,
                    ativo = True, createdBy = cb, updatedBy = Undefined\<rparr>
           in (Inr r, bd\<lparr>linhas := (linhas bd)(e := linhas bd e @ [r]),
                          sequencia := (sequencia bd)(e := sequencia bd e + 1)\<rparr>)))"

text \<open>The row of an entity with a given identifier: the first one in the table.\<close>

definition linha :: "banco \<Rightarrow> entidade \<Rightarrow> int \<Rightarrow> registro option" where
  "linha bd e i = find (\<lambda>r. ident r = i) (linhas bd e)"

text \<open>
  Modelled from the spec: \<open>findById(id) -> record | NotFoundFailure\<close>, the static method
  \<open>findOrFail\<close>. The record found is an instance of the model class.
\<close>

definition findOrFail :: "ctx \<Rightarrow> entidade \<Rightarrow> int \<Rightarrow> registro acao" where
  "findOrFail cx e i bd =
     (case falha cx ChFindOrFail of
        Some err \<Rightarrow> (Inl err, bd)
      | None \<Rightarrow>
          (case linha bd e i of
             None \<Rightarrow> (Inl RowNotFound, bd)
           | Some r \<Rightarrow> (Inr r, bd)))"

text \<open>Modelled from the spec: \<open>findAll() -> list<record>\<close>, the call \<open>Model.query()\<close>.\<close>

definition query :: "ctx \<Rightarrow> entidade \<Rightarrow> registro list acao" where
  "query cx e bd =
     (case falha cx ChQuery of
        Some err \<Rightarrow> (Inl err, bd)
      | None \<Rightarrow> (Inr (linhas bd e), bd))"

text \<open>
  Modelled from the spec: \<open>findWhere(predicate) -> list<record>\<close>, the call
  \<open>Model.query().where('ativo', true)\<close>.
\<close>

definition query_where_ativo :: "ctx \<Rightarrow> entidade \<Rightarrow> registro list acao" where
  "query_where_ativo cx e bd =
     (case falha cx ChQuery of
        Some err \<Rightarrow> (Inl err, bd)
      | None \<Rightarrow> (Inr (filter (\<lambda>r. ativo r = True) (linhas bd e)), bd))"

text \<open>
  Modelled from the spec: \<open>save(record) -> record\<close>, the method \<open>save\<close> that an instance
  inherits from the model class. It writes the record over the row with its identifier.
\<close>

definition save :: "ctx \<Rightarrow> entidade \<Rightarrow> registro \<Rightarrow> unit acao" where
  "save cx e r bd =
     (case falha cx ChSave of
        Some err \<Rightarrow> (Inl err, bd)
      | None \<Rightarrow>
          (Inr (), bd\<lparr>linhas := (linhas bd)(e :=
                   map (\<lambda>x. if ident x = ident r then r else x) (linhas bd e))\<rparr>))"

text \<open>
  The call expression \<open>x.save()\<close>, where \<open>x\<close> is the local variable of the method. On an
  instance it runs the method of the class. On a plain object the property \<open>save\<close> is
  \<open>undefined\<close>, and calling it throws \<open>TypeError: x.save is not a function\<close> before any
  store is reached.
\<close>

fun chamar_save :: "ctx \<Rightarrow> entidade \<Rightarrow> objeto \<Rightarrow> unit acao" where
  "chamar_save cx e (Instancia r) = save cx e r"
| "chamar_save cx e (Literal r) = lancar (TypeError (variavel e @ ''.save is not a function''))"

section \<open>Response envelope\<close>

datatype mensagem = Texto string | Bruto erro

datatype dados = Um objeto | Lista "registro list"

record envelope =
  status :: bool
  message :: mensagem
  data :: "dados option"

record resposta =
  http_status :: nat
  body :: envelope

text \<open>\<open>response.status(c).send(env)\<close>.\<close>

definition enviar :: "nat \<Rightarrow> envelope \<Rightarrow> resposta acao" where
  "enviar c env = retornar \<lparr>http_status = c, body = env\<rparr>"

section \<open>The controller\<close>

text \<open>
  Each method is \<open>try { block } catch (error) { ... }\<close>. The block of each method is a
  definition of its own (\<open>bloco_cadastrar\<close>, ...), so that what the block throws can be
  named; the method wraps it.
\<close>

definition bloco_cadastrar :: "entidade \<Rightarrow> ctx \<Rightarrow> resposta acao" where
  "bloco_cadastrar e cx =
     ligar (validate cx) (\<lambda>v.
     ligar (create cx e v (nome_opcional (auth_user cx))) (\<lambda>historico.
     enviar 201 \<lparr>status = True, message = Texto ''Registro cadastrado com sucesso!'',
                 data = Some (Um (Instancia historico))\<rparr>))"

definition cadastrar :: "entidade \<Rightarrow> ctx \<Rightarrow> resposta acao" where
  "cadastrar e cx =
     tentar (bloco_cadastrar e cx)
       (\<lambda>error. enviar 500 \<lparr>status = False, message = Bruto error, data = None\<rparr>)"

text \<open>
  The object literal \<open>{...historico, fk, documento, updatedBy: auth.user?.nome ?? null}\<close>
  of \<open>atualizar\<close>: a plain object. Which own properties the spread copies from the
  instance is decided by the model class; the embedding lets the literal carry the fields
  of the record found, with the three given ones over them. The methods of the class are
  not own properties and are not copied.
\<close>

definition espalhar :: "registro \<Rightarrow> validado \<Rightarrow> usuario option \<Rightarrow> objeto" where
  "espalhar historico v u =
     Literal (historico\<lparr>fkId := v_fkId v, documento := v_documento v,
                        updatedBy := coalescer (nome_opcional u) Null\<rparr>)"

definition bloco_atualizar :: "entidade \<Rightarrow> ctx \<Rightarrow> resposta acao" where
  "bloco_atualizar e cx =
     ligar (findOrFail cx e (params_id cx)) (\<lambda>historico.
     ligar (validate cx) (\<lambda>v.
     (let historico' = espalhar historico v (auth_user cx) in
      ligar (chamar_save cx e historico') (\<lambda>_.
      enviar 200 \<lparr>status = True, message = Texto ''Registro atualizado com sucesso'',
                  data = Some (Um historico')\<rparr>))))"

definition atualizar :: "entidade \<Rightarrow> ctx \<Rightarrow> resposta acao" where
  "atualizar e cx =
     tentar (bloco_atualizar e cx)
       (\<lambda>error. enviar 500 \<lparr>status = False, message = Bruto error, data = None\<rparr>)"

text \<open>
  The two assignments of \<open>ativar\<close>, made on the instance found:
  \<open>x.ativo = !x.ativo; x.updatedBy = auth.user?.nome ?? null\<close>.
\<close>

definition alternar :: "registro \<Rightarrow> usuario option \<Rightarrow> registro" where
  "alternar historico u =
     historico\<lparr>ativo := \<not> ativo historico, updatedBy := coalescer (nome_opcional u) Null\<rparr>"

definition bloco_ativar :: "entidade \<Rightarrow> ctx \<Rightarrow> resposta acao" where
  "bloco_ativar e cx =
     ligar (findOrFail cx e (params_id cx)) (\<lambda>historico.
     (let historico' = alternar historico (auth_user cx) in
      ligar (chamar_save cx e (Instancia historico')) (\<lambda>_.
      enviar 200 \<lparr>status = True,
                  message = Texto (''Registro '' @
                    (if ativo historico' then ''ativado'' else ''inativado'') @
                    '' com sucesso''),
                  data = Some (Um (Instancia historico'))\<rparr>)))"

definition ativar :: "entidade \<Rightarrow> ctx \<Rightarrow> resposta acao" where
  "ativar e cx =
     tentar (bloco_ativar e cx)
       (\<lambda>error. enviar 500 \<lparr>status = False, message = Bruto error, data = None\<rparr>)"

definition bloco_buscarTodos :: "entidade \<Rightarrow> ctx \<Rightarrow> resposta acao" where
  "bloco_buscarTodos e cx =
     ligar (query cx e) (\<lambda>historicos.
     if int (length historicos) \<le> 0
     then lancar (CustomErrorException ''Nenhum registro encontrado'' 404)
     else enviar 200 \<lparr>status = True, message = Texto ''Registros retornados com sucesso'',
                      data = Some (Lista historicos)\<rparr>)"

definition buscarTodos :: "entidade \<Rightarrow> ctx \<Rightarrow> resposta acao" where
  "buscarTodos e cx =
     tentar (bloco_buscarTodos e cx)
       (\<lambda>error. enviar 500 \<lparr>status = False, message = Bruto error, data = None\<rparr>)"

definition bloco_buscarAtivos :: "entidade \<Rightarrow> ctx \<Rightarrow> resposta acao" where
  "bloco_buscarAtivos e cx =
     ligar (query_where_ativo cx e) (\<lambda>historicos.
     if int (length historicos) \<le> 0
     then lancar (CustomErrorException ''Nenhum registro encontrado'' 404)
     else enviar 200 \<lparr>status = True, message = Texto ''Registros retornados com sucesso'',
                      data = Some (Lista historicos)\<rparr>)"

definition buscarAtivos :: "entidade \<Rightarrow> ctx \<Rightarrow> resposta acao" where
  "buscarAtivos e cx =
     tentar (bloco_buscarAtivos e cx)
       (\<lambda>error. enviar 500 \<lparr>status = False, message = Bruto error, data = None\<rparr>)"

definition bloco_buscarPorId :: "entidade \<Rightarrow> ctx \<Rightarrow> resposta acao" where
  "bloco_buscarPorId e cx =
     ligar (findOrFail cx e (params_id cx)) (\<lambda>historico.
     enviar 200 \<lparr>status = True, message = Texto ''Registro retornado com sucesso'',
                 data = Some (Um (Instancia historico))\<rparr>)"

definition buscarPorId :: "entidade \<Rightarrow> ctx \<Rightarrow> resposta acao" where
  "buscarPorId e cx =
     tentar (bloco_buscarPorId e cx)
       (\<lambda>error. enviar 500 \<lparr>status = False, message = Bruto error, data = None\<rparr>)"

text \<open>The six operations of a controller, to speak of all of them at once.\<close>

datatype operacao = Cadastrar | Atualizar | Ativar | BuscarTodos | BuscarAtivos | BuscarPorId

fun bloco :: "operacao \<Rightarrow> entidade \<Rightarrow> ctx \<Rightarrow> resposta acao" where
  "bloco Cadastrar = bloco_cadastrar"
| "bloco Atualizar = bloco_atualizar"
| "bloco Ativar = bloco_ativar"
| "bloco BuscarTodos = bloco_buscarTodos"
| "bloco BuscarAtivos = bloco_buscarAtivos"
| "bloco BuscarPorId = bloco_buscarPorId"

fun executar :: "operacao \<Rightarrow> entidade \<Rightarrow> ctx \<Rightarrow> resposta acao" where
  "executar Cadastrar = cadastrar"
| "executar Atualizar = atualizar"
| "executar Ativar = ativar"
| "executar BuscarTodos = buscarTodos"
| "executar BuscarAtivos = buscarAtivos"
| "executar BuscarPorId = buscarPorId"

section \<open>Example requests and databases\<close>

definition bd_vazio :: banco where
  "bd_vazio = \<lparr>linhas = (\<lambda>_. []), sequencia = (\<lambda>_. 1)\<rparr>"

definition reg_ativo :: registro where
  "reg_ativo = \<lparr>ident = 1, fkId = 7, documento = ''abc'', ativo = True,
                createdBy = Str ''Ana'', updatedBy = Undefined\<rparr>"

definition reg_inativo :: registro where
  "reg_inativo = \<lparr>ident = 2, fkId = 9, documento = ''def'', ativo = False,
                  createdBy = Undefined, updatedBy = Null\<rparr>"

text \<open>One active and one inactive financial history; the other tables are empty.\<close>

definition bd_exemplo :: banco where
  "bd_exemplo = \<lparr>linhas = (\<lambda>_. [])(HistoricoFinanceiro := [reg_ativo, reg_inativo]),
                 sequencia = (\<lambda>_. 1)(HistoricoFinanceiro := 3)\<rparr>"

text \<open>Every table holds the inactive record only.\<close>

definition bd_inativo :: banco where
  "bd_inativo = \<lparr>linhas = (\<lambda>_. [reg_inativo]), sequencia = (\<lambda>_. 3)\<rparr>"

text \<open>Ana sends \<open>{fk: 7, documento: "abc"}\<close> with \<open>id = 1\<close>; the store answers every call.\<close>

definition cx_ana :: ctx where
  "cx_ana = \<lparr>validacao = Inr \<lparr>v_fkId = 7, v_documento = ''abc''\<rparr>, params_id = 1,
            auth_user = Some \<lparr>nome = ''Ana''\<rparr>, falha = (\<lambda>_. None)\<rparr>"

text \<open>Ana sends \<open>{fk: 8, documento: "xyz"}\<close> with \<open>id = 1\<close>.\<close>

definition cx_edita :: ctx where
  "cx_edita = \<lparr>validacao = Inr \<lparr>v_fkId = 8, v_documento = ''xyz''\<rparr>, params_id = 1,
              auth_user = Some \<lparr>nome = ''Ana''\<rparr>, falha = (\<lambda>_. None)\<rparr>"

text \<open>Nobody is logged in, the body is rejected by the validator, and \<open>id = 3\<close>.\<close>

definition cx_anonimo :: ctx where
  "cx_anonimo = \<lparr>validacao = Inl (ValidationException ''documento''), params_id = 3,
                auth_user = None, falha = (\<lambda>_. None)\<rparr>"

text \<open>Nobody is logged in and \<open>id = 2\<close>; the store answers every call.\<close>

definition cx_visita :: ctx where
  "cx_visita = \<lparr>validacao = Inr \<lparr>v_fkId = 9, v_documento = ''def''\<rparr>, params_id = 2,
               auth_user = None, falha = (\<lambda>_. None)\<rparr>"

text \<open>As \<open>cx_ana\<close>, with a store that refuses the write of \<open>save\<close>.\<close>

definition cx_fora :: ctx where
  "cx_fora = \<lparr>validacao = Inr \<lparr>v_fkId = 7, v_documento = ''abc''\<rparr>, params_id = 1,
             auth_user = Some \<lparr>nome = ''Ana''\<rparr>,
             falha = (\<lambda>_. None)(ChSave := Some (OutroErro ''ECONNREFUSED''))\<rparr>"

section \<open>Auxiliary facts\<close>

lemmas acao_defs = retornar_def lancar_def ligar_def tentar_def validate_def enviar_def Let_def

lemmas exemplo_defs = bd_vazio_def bd_exemplo_def bd_inativo_def reg_ativo_def reg_inativo_def
  cx_ana_def cx_edita_def cx_anonimo_def cx_visita_def cx_fora_def

lemmas metodo_defs = cadastrar_def atualizar_def ativar_def buscarTodos_def buscarAtivos_def
  buscarPorId_def

lemmas bloco_defs = bloco_cadastrar_def bloco_atualizar_def bloco_ativar_def
  bloco_buscarTodos_def bloco_buscarAtivos_def bloco_buscarPorId_def

lemmas store_defs = create_def findOrFail_def save_def query_def query_where_ativo_def

lemma linha_ident: "linha bd e i = Some r \<Longrightarrow> ident r = i"
  by (auto simp: linha_def find_Some_iff)

lemma find_map_substitui:
  "find (\<lambda>x. ident x = i) xs = Some r \<Longrightarrow> ident r' = i \<Longrightarrow>
   find (\<lambda>x. ident x = i) (map (\<lambda>x. if ident x = i then r' else x) xs) = Some r'"
  by (induction xs) (auto split: if_splits)

lemma linha_save:
  assumes "linha bd e i = Some r" and "ident r' = i"
  shows "linha (bd\<lparr>linhas := (linhas bd)(e :=
            map (\<lambda>x. if ident x = ident r' then r' else x) (linhas bd e))\<rparr>) e i = Some r'"
  using assms find_map_substitui [of i "linhas bd e" r r'] by (simp add: linha_def)

text \<open>
  Whatever the request and the database, \<open>atualizar\<close> answers 500 and leaves the database
  as it was: the block throws at \<open>findOrFail\<close>, at \<open>validate\<close>, or at the call of \<open>save\<close>
  on the object literal.
\<close>

lemma atualizar_500:
  "\<exists>err. atualizar e cx bd =
     (Inr \<lparr>http_status = 500, body = \<lparr>status = False, message = Bruto err, data = None\<rparr>\<rparr>, bd)"
  by (auto simp: atualizar_def bloco_atualizar_def findOrFail_def espalhar_def acao_defs
      split: option.splits sum.splits)

lemma atualizar_existente:
  assumes "linha bd e (params_id cx) = Some r" and "validacao cx = Inr v"
    and "falha cx ChFindOrFail = None"
  shows "atualizar e cx bd =
     (Inr \<lparr>http_status = 500, body = \<lparr>status = False,
        message = Bruto (TypeError (variavel e @ ''.save is not a function'')),
        data = None\<rparr>\<rparr>, bd)"
  using assms
  by (simp add: atualizar_def bloco_atualizar_def findOrFail_def espalhar_def acao_defs)

lemma alternar_ident: "ident (alternar r u) = ident r"
  by (simp add: alternar_def)

lemma alternar_campos:
  "alternar r u = r\<lparr>ativo := \<not> ativo r,
     updatedBy := (case u of None \<Rightarrow> Null | Some p \<Rightarrow> Str (nome p))\<rparr>"
  by (cases u) (simp_all add: alternar_def)

lemma ativar_sucesso:
  assumes "linha bd e (params_id cx) = Some r"
    and "falha cx ChFindOrFail = None" and "falha cx ChSave = None"
  shows "ativar e cx bd =
    (Inr \<lparr>http_status = 200, body = \<lparr>status = True,
        message = Texto (''Registro '' @
          (if ativo (alternar r (auth_user cx)) then ''ativado'' else ''inativado'') @
          '' com sucesso''),
        data = Some (Um (Instancia (alternar r (auth_user cx))))\<rparr>\<rparr>,
     bd\<lparr>linhas := (linhas bd)(e :=
        map (\<lambda>x. if ident x = ident (alternar r (auth_user cx))
                  then alternar r (auth_user cx) else x) (linhas bd e))\<rparr>)"
  using assms by (simp add: ativar_def bloco_ativar_def findOrFail_def save_def acao_defs)

lemma linha_ativar:
  assumes "linha bd e (params_id cx) = Some r"
    and "falha cx ChFindOrFail = None" and "falha cx ChSave = None"
  shows "linha (snd (ativar e cx bd)) e (params_id cx) = Some (alternar r (auth_user cx))"
proof -
  have "ident (alternar r (auth_user cx)) = params_id cx"
    using assms(1) by (simp add: alternar_ident linha_ident)
  then show ?thesis
    using linha_save [OF assms(1)] by (simp add: ativar_sucesso [OF assms])
qed

text \<open>The rows of the example databases, looked up by identifier.\<close>

lemma linha_exemplo:
  "linha bd_exemplo HistoricoFinanceiro 1 = Some reg_ativo"
  "linha bd_exemplo HistoricoFinanceiro 2 = Some reg_inativo"
  "linha bd_exemplo HistoricoFinanceiro 3 = None"
  "linha bd_inativo HistoricoAssociado 2 = Some reg_inativo"
  by (simp_all add: linha_def exemplo_defs)

lemma falha_exemplo:
  "falha cx_ana c = None" "falha cx_edita c = None" "falha cx_anonimo c = None"
  "falha cx_visita c = None" "falha cx_fora ChFindOrFail = None"
  by (simp_all add: exemplo_defs)

section \<open>Update\<close>

text \<open>
  C1, at the request \<open>cx_edita\<close> on \<open>bd_exemplo\<close>. The identifier 1 names an existing
  record and the body passes validation, and \<open>atualizar\<close> answers 500 with
  \<open>TypeError: historico.save is not a function\<close>: the object that \<open>save\<close> is called on is
  the object literal built by the spread, which has no method \<open>save\<close>. The database is
  left as it was, so the record still has its old foreign key and document and nothing
  was persisted; the answer 200 with \<open>Registro atualizado com sucesso\<close> is not given.
\<close>

theorem atualizar_registro_existente_500:
  "linha bd_exemplo HistoricoFinanceiro (params_id cx_edita) = Some reg_ativo
   \<and> validacao cx_edita = Inr \<lparr>v_fkId = 8, v_documento = ''xyz''\<rparr>
   \<and> atualizar HistoricoFinanceiro cx_edita bd_exemplo =
       (Inr \<lparr>http_status = 500, body = \<lparr>status = False,
          message = Bruto (TypeError ''historico.save is not a function''),
          data = None\<rparr>\<rparr>, bd_exemplo)
   \<and> fkId reg_ativo = 7 \<and> documento reg_ativo = ''abc''"
proof -
  have 1: "linha bd_exemplo HistoricoFinanceiro (params_id cx_edita) = Some reg_ativo"
    by (simp add: linha_def exemplo_defs)
  have 2: "validacao cx_edita = Inr \<lparr>v_fkId = 8, v_documento = ''xyz''\<rparr>"
    by (simp add: cx_edita_def)
  have 3: "falha cx_edita ChFindOrFail = None"
    by (simp add: cx_edita_def)
  have 4: "fkId reg_ativo = 7 \<and> documento reg_ativo = ''abc''"
    by (simp add: reg_ativo_def)
  show ?thesis
    using 1 2 4 atualizar_existente [OF 1 2 3] by simp
qed

text \<open>
  C6: for every update call and every record that exists before it, the record exists
  after it with the same identifier, the same \<open>ativo\<close> and the same \<open>createdBy\<close>. (The
  stored record is in fact left as it was in every field, since the write of \<open>atualizar\<close>
  is never reached.)
\<close>

theorem atualizar_preserva_ativo_createdBy:
  assumes "linha bd e i = Some r"
  shows "\<exists>r'. linha (snd (atualizar e cx bd)) e i = Some r'
           \<and> ident r' = ident r \<and> ativo r' = ativo r \<and> createdBy r' = createdBy r"
proof -
  obtain err where "atualizar e cx bd =
     (Inr \<lparr>http_status = 500, body = \<lparr>status = False, message = Bruto err, data = None\<rparr>\<rparr>, bd)"
    using atualizar_500 by blast
  then show ?thesis using assms by simp
qed

theorem atualizar_preserva_ativo_createdBy_witness:
  "linha bd_exemplo HistoricoFinanceiro 1 = Some reg_ativo
   \<and> (\<exists>r'. linha (snd (atualizar HistoricoFinanceiro cx_edita bd_exemplo)) HistoricoFinanceiro 1
              = Some r'
         \<and> ident r' = 1 \<and> ativo r' = True \<and> createdBy r' = Str ''Ana'')"
proof -
  have h: "linha bd_exemplo HistoricoFinanceiro 1 = Some reg_ativo"
    by (rule linha_exemplo)
  show ?thesis
    using h atualizar_preserva_ativo_createdBy [OF h, of cx_edita]
    by (simp add: reg_ativo_def)
qed

section \<open>Create\<close>

text \<open>
  C4: for every create call whose body passes validation, and whose insertion the store
  does not refuse, the answer is 201 with \<open>status = True\<close>, the message
  \<open>Registro cadastrado com sucesso!\<close> and the created record as data; the foreign key and
  the document of that record are the validated ones, \<open>ativo\<close> is true (the default of the
  store), \<open>createdBy\<close> is the name of the acting user, or \<open>undefined\<close> (absent) when there
  is no user, and the record is the new last row of the entity's table.
\<close>

theorem cadastrar_sucesso:
  assumes "validacao cx = Inr v" and "falha cx ChCreate = None"
  shows "\<exists>r. fst (cadastrar e cx bd) = Inr \<lparr>http_status = 201, body = \<lparr>status = True,
             message = Texto ''Registro cadastrado com sucesso!'',
             data = Some (Um (Instancia r))\<rparr>\<rparr>
          \<and> fkId r = v_fkId v \<and> documento r = v_documento v \<and> ativo r = True
          \<and> createdBy r = (case auth_user cx of None \<Rightarrow> Undefined | Some u \<Rightarrow> Str (nome u))
          \<and> linhas (snd (cadastrar e cx bd)) e = linhas bd e @ [r]"
  using assms
  by (cases "auth_user cx") (simp_all add: cadastrar_def bloco_cadastrar_def create_def acao_defs)

theorem cadastrar_sucesso_witness:
  "validacao cx_ana = Inr \<lparr>v_fkId = 7, v_documento = ''abc''\<rparr> \<and> falha cx_ana ChCreate = None
   \<and> (\<exists>r. fst (cadastrar HistoricoFinanceiro cx_ana bd_vazio) =
            Inr \<lparr>http_status = 201, body = \<lparr>status = True,
              message = Texto ''Registro cadastrado com sucesso!'',
              data = Some (Um (Instancia r))\<rparr>\<rparr>
          \<and> fkId r = 7 \<and> documento r = ''abc'' \<and> ativo r = True \<and> createdBy r = Str ''Ana''
          \<and> linhas (snd (cadastrar HistoricoFinanceiro cx_ana bd_vazio)) HistoricoFinanceiro = [r])"
proof -
  have 1: "validacao cx_ana = Inr \<lparr>v_fkId = 7, v_documento = ''abc''\<rparr>"
    by (simp add: cx_ana_def)
  have 2: "falha cx_ana ChCreate = None"
    by (rule falha_exemplo)
  have 3: "auth_user cx_ana = Some \<lparr>nome = ''Ana''\<rparr>"
    by (simp add: cx_ana_def)
  have 4: "linhas bd_vazio HistoricoFinanceiro = []"
    by (simp add: bd_vazio_def)
  show ?thesis
    using 1 2 cadastrar_sucesso [OF 1 2, of HistoricoFinanceiro bd_vazio]
    by (simp add: 3 4)
qed

section \<open>Toggle\<close>

text \<open>
  C5: for every toggle call whose identifier names an existing record, and whose two
  store calls the store does not refuse, the answer is 200 with \<open>status = True\<close>, the
  message \<open>Registro ativado com sucesso\<close> when the record is now active and
  \<open>Registro inativado com sucesso\<close> otherwise, and as data the record with \<open>ativo\<close> negated
  and \<open>updatedBy\<close> set to the name of the acting user, or \<open>null\<close> when there is no user;
  that record is the one stored under the identifier afterwards.
\<close>

theorem ativar_alterna:
  assumes "linha bd e (params_id cx) = Some r"
    and "falha cx ChFindOrFail = None" and "falha cx ChSave = None"
  shows "fst (ativar e cx bd) = Inr \<lparr>http_status = 200, body = \<lparr>status = True,
            message = Texto (if ativo r then ''Registro inativado com sucesso''
                             else ''Registro ativado com sucesso''),
            data = Some (Um (Instancia (r\<lparr>ativo := \<not> ativo r,
               updatedBy := (case auth_user cx of None \<Rightarrow> Null | Some u \<Rightarrow> Str (nome u))\<rparr>)))\<rparr>\<rparr>
       \<and> linha (snd (ativar e cx bd)) e (params_id cx) =
            Some (r\<lparr>ativo := \<not> ativo r,
               updatedBy := (case auth_user cx of None \<Rightarrow> Null | Some u \<Rightarrow> Str (nome u))\<rparr>)"
  using linha_ativar [OF assms] ativar_sucesso [OF assms]
  by (simp add: alternar_campos)

theorem ativar_alterna_witness:
  "linha bd_exemplo HistoricoFinanceiro (params_id cx_ana) = Some reg_ativo
   \<and> falha cx_ana ChFindOrFail = None \<and> falha cx_ana ChSave = None
   \<and> fst (ativar HistoricoFinanceiro cx_ana bd_exemplo) =
       Inr \<lparr>http_status = 200, body = \<lparr>status = True,
         message = Texto ''Registro inativado com sucesso'',
         data = Some (Um (Instancia \<lparr>ident = 1, fkId = 7, documento = ''abc'', ativo = False,
                  createdBy = Str ''Ana'', updatedBy = Str ''Ana''\<rparr>))\<rparr>\<rparr>
   \<and> linha (snd (ativar HistoricoFinanceiro cx_ana bd_exemplo)) HistoricoFinanceiro 1 =
       Some \<lparr>ident = 1, fkId = 7, documento = ''abc'', ativo = False,
             createdBy = Str ''Ana'', updatedBy = Str ''Ana''\<rparr>
   \<and> linha bd_inativo HistoricoAssociado (params_id cx_visita) = Some reg_inativo
   \<and> fst (ativar HistoricoAssociado cx_visita bd_inativo) =
       Inr \<lparr>http_status = 200, body = \<lparr>status = True,
         message = Texto ''Registro ativado com sucesso'',
         data = Some (Um (Instancia \<lparr>ident = 2, fkId = 9, documento = ''def'', ativo = True,
                  createdBy = Undefined, updatedBy = Null\<rparr>))\<rparr>\<rparr>"
proof -
  have p1: "params_id cx_ana = 1" and p2: "params_id cx_visita = 2"
    and u1: "auth_user cx_ana = Some \<lparr>nome = ''Ana''\<rparr>" and u2: "auth_user cx_visita = None"
    by (simp_all add: cx_ana_def cx_visita_def)
  have a: "linha bd_exemplo HistoricoFinanceiro (params_id cx_ana) = Some reg_ativo"
    by (simp add: p1 linha_exemplo)
  have b: "linha bd_inativo HistoricoAssociado (params_id cx_visita) = Some reg_inativo"
    by (simp add: p2 linha_exemplo)
  have f: "falha cx_ana ChFindOrFail = None" "falha cx_ana ChSave = None"
    "falha cx_visita ChFindOrFail = None" "falha cx_visita ChSave = None"
    by (rule falha_exemplo)+
  show ?thesis
    using a b f ativar_alterna [OF a f(1,2)] ativar_alterna [OF b f(3,4)]
    by (simp add: p1 u1 u2 reg_ativo_def reg_inativo_def)
qed

text \<open>
  C7: for every record, two toggle calls in succession on its identifier (by any users,
  the store refusing none of the calls) leave the record stored with the value of
  \<open>ativo\<close> it had before the first.
\<close>

theorem ativar_duas_vezes:
  assumes "linha bd e (params_id cx1) = Some r" and "params_id cx2 = params_id cx1"
    and "falha cx1 ChFindOrFail = None" and "falha cx1 ChSave = None"
    and "falha cx2 ChFindOrFail = None" and "falha cx2 ChSave = None"
  shows "\<exists>r''. linha (snd (ativar e cx2 (snd (ativar e cx1 bd)))) e (params_id cx1) = Some r''
            \<and> ativo r'' = ativo r"
proof -
  let ?bd1 = "snd (ativar e cx1 bd)"
  have 1: "linha ?bd1 e (params_id cx2) = Some (alternar r (auth_user cx1))"
    using linha_ativar [OF assms(1,3,4)] assms(2) by simp
  have 2: "linha (snd (ativar e cx2 ?bd1)) e (params_id cx2)
             = Some (alternar (alternar r (auth_user cx1)) (auth_user cx2))"
    by (rule linha_ativar [OF 1 assms(5,6)])
  show ?thesis
    using 2 assms(2) by (simp add: alternar_def)
qed

theorem ativar_duas_vezes_witness:
  "linha bd_exemplo HistoricoFinanceiro (params_id cx_ana) = Some reg_ativo
   \<and> params_id cx_edita = params_id cx_ana
   \<and> falha cx_ana ChFindOrFail = None \<and> falha cx_ana ChSave = None
   \<and> falha cx_edita ChFindOrFail = None \<and> falha cx_edita ChSave = None
   \<and> ativo reg_ativo = True
   \<and> (\<exists>r''. linha (snd (ativar HistoricoFinanceiro cx_edita
                 (snd (ativar HistoricoFinanceiro cx_ana bd_exemplo)))) HistoricoFinanceiro 1
               = Some r'' \<and> ativo r'' = True)"
proof -
  have p: "params_id cx_ana = 1" "params_id cx_edita = params_id cx_ana"
    by (simp_all add: cx_ana_def cx_edita_def)
  have a: "linha bd_exemplo HistoricoFinanceiro (params_id cx_ana) = Some reg_ativo"
    by (simp add: p(1) linha_exemplo)
  have f: "falha cx_ana ChFindOrFail = None" "falha cx_ana ChSave = None"
    "falha cx_edita ChFindOrFail = None" "falha cx_edita ChSave = None"
    by (rule falha_exemplo)+
  have t: "ativo reg_ativo = True"
    by (simp add: reg_ativo_def)
  show ?thesis
    using a p(2) f t ativar_duas_vezes [OF a p(2) f]
    by (simp add: p(1))
qed

section \<open>Lists\<close>

text \<open>
  C3: for every list-all call on an entity whose table is empty, and every list-active
  call on an entity with no active record (the query itself being answered), the block
  throws \<open>CustomErrorException("Nenhum registro encontrado", 404)\<close>; the answer is not a
  success envelope: it has \<open>status = False\<close> and that exception, with its message and its
  code 404, as message. The answer is sent with the HTTP code 500 of the catch.
\<close>

theorem lista_vazia_falha:
  assumes "falha cx ChQuery = None"
  shows "(linhas bd e = [] \<longrightarrow>
            fst (bloco_buscarTodos e cx bd)
              = Inl (CustomErrorException ''Nenhum registro encontrado'' 404)
          \<and> buscarTodos e cx bd = (Inr \<lparr>http_status = 500, body = \<lparr>status = False,
               message = Bruto (CustomErrorException ''Nenhum registro encontrado'' 404),
               data = None\<rparr>\<rparr>, bd))
       \<and> (filter ativo (linhas bd e) = [] \<longrightarrow>
            fst (bloco_buscarAtivos e cx bd)
              = Inl (CustomErrorException ''Nenhum registro encontrado'' 404)
          \<and> buscarAtivos e cx bd = (Inr \<lparr>http_status = 500, body = \<lparr>status = False,
               message = Bruto (CustomErrorException ''Nenhum registro encontrado'' 404),
               data = None\<rparr>\<rparr>, bd))"
  using assms
  by (simp add: buscarTodos_def buscarAtivos_def bloco_buscarTodos_def bloco_buscarAtivos_def
      query_def query_where_ativo_def acao_defs)

theorem lista_vazia_falha_witness:
  "falha cx_ana ChQuery = None
   \<and> linhas bd_vazio HistoricoFinanceiro = []
   \<and> fst (bloco_buscarTodos HistoricoFinanceiro cx_ana bd_vazio)
       = Inl (CustomErrorException ''Nenhum registro encontrado'' 404)
   \<and> fst (buscarTodos HistoricoFinanceiro cx_ana bd_vazio) =
       Inr \<lparr>http_status = 500, body = \<lparr>status = False,
         message = Bruto (CustomErrorException ''Nenhum registro encontrado'' 404),
         data = None\<rparr>\<rparr>
   \<and> linhas bd_inativo ArquivoAssociado = [reg_inativo]
   \<and> filter ativo (linhas bd_inativo ArquivoAssociado) = []
   \<and> fst (bloco_buscarAtivos ArquivoAssociado cx_ana bd_inativo)
       = Inl (CustomErrorException ''Nenhum registro encontrado'' 404)
   \<and> fst (buscarAtivos ArquivoAssociado cx_ana bd_inativo) =
       Inr \<lparr>http_status = 500, body = \<lparr>status = False,
         message = Bruto (CustomErrorException ''Nenhum registro encontrado'' 404),
         data = None\<rparr>\<rparr>"
proof -
  have f: "falha cx_ana ChQuery = None"
    by (rule falha_exemplo)
  have v: "linhas bd_vazio HistoricoFinanceiro = []"
    by (simp add: bd_vazio_def)
  have i: "linhas bd_inativo ArquivoAssociado = [reg_inativo]"
    by (simp add: bd_inativo_def)
  have n: "filter ativo (linhas bd_inativo ArquivoAssociado) = []"
    by (simp add: i reg_inativo_def)
  show ?thesis
    using f v i n lista_vazia_falha [OF f, of bd_vazio HistoricoFinanceiro]
      lista_vazia_falha [OF f, of bd_inativo ArquivoAssociado]
    by simp
qed

text \<open>
  C8, as the code has it: for every list-active call on an entity with at least one
  active record (the query being answered), the answer is 200 with
  \<open>Registros retornados com sucesso\<close> and a list that holds exactly the records of the
  table whose \<open>ativo\<close> is true, in the order of the table; the database is left as it
  was. A table that is not empty is not enough: the guard \<open>historicos.length <= 0\<close> of
  \<open>buscarAtivos\<close> looks at the filtered result, and throws when no record is active (see
  \<open>buscarAtivos_so_inativos\<close> below).
\<close>

theorem buscarAtivos_filtra:
  assumes "falha cx ChQuery = None" and "\<exists>r \<in> set (linhas bd e). ativo r"
  shows "\<exists>xs. buscarAtivos e cx bd = (Inr \<lparr>http_status = 200, body = \<lparr>status = True,
             message = Texto ''Registros retornados com sucesso'',
             data = Some (Lista xs)\<rparr>\<rparr>, bd)
           \<and> xs = filter ativo (linhas bd e)
           \<and> set xs = {r \<in> set (linhas bd e). ativo r}"
proof -
  have "filter ativo (linhas bd e) \<noteq> []"
    using assms(2) by (simp add: filter_empty_conv)
  then show ?thesis
    using assms(1)
    by (simp add: buscarAtivos_def bloco_buscarAtivos_def query_where_ativo_def acao_defs)
qed

text \<open>
  The scenario of one active and one inactive record: the list returned has length 1 and
  holds the active record only.
\<close>

theorem buscarAtivos_filtra_witness:
  "falha cx_ana ChQuery = None
   \<and> linhas bd_exemplo HistoricoFinanceiro = [reg_ativo, reg_inativo]
   \<and> ativo reg_ativo \<and> \<not> ativo reg_inativo
   \<and> (\<exists>xs. fst (buscarAtivos HistoricoFinanceiro cx_ana bd_exemplo) =
          Inr \<lparr>http_status = 200, body = \<lparr>status = True,
            message = Texto ''Registros retornados com sucesso'',
            data = Some (Lista xs)\<rparr>\<rparr>
        \<and> xs = [reg_ativo] \<and> length xs = 1)"
proof -
  have f: "falha cx_ana ChQuery = None"
    by (rule falha_exemplo)
  have l: "linhas bd_exemplo HistoricoFinanceiro = [reg_ativo, reg_inativo]"
    by (simp add: bd_exemplo_def)
  have a: "ativo reg_ativo" "\<not> ativo reg_inativo"
    by (simp_all add: reg_ativo_def reg_inativo_def)
  have h: "\<exists>r \<in> set (linhas bd_exemplo HistoricoFinanceiro). ativo r"
    by (simp add: l a)
  show ?thesis
    using f l a buscarAtivos_filtra [OF f h]
    by simp
qed

text \<open>
  List-active on a table that is not empty and holds no active record: the store answers
  the query, the filtered result is empty, the guard throws, and the answer is 500 with
  \<open>status = False\<close> and no list.
\<close>

theorem buscarAtivos_so_inativos:
  "falha cx_ana ChQuery = None
   \<and> linhas bd_inativo ArquivoAssociado = [reg_inativo]
   \<and> linhas bd_inativo ArquivoAssociado \<noteq> []
   \<and> buscarAtivos ArquivoAssociado cx_ana bd_inativo =
       (Inr \<lparr>http_status = 500, body = \<lparr>status = False,
          message = Bruto (CustomErrorException ''Nenhum registro encontrado'' 404),
          data = None\<rparr>\<rparr>, bd_inativo)"
  by (simp add: buscarAtivos_def bloco_buscarAtivos_def query_where_ativo_def acao_defs
      cx_ana_def bd_inativo_def reg_inativo_def)

section \<open>Get by id\<close>

text \<open>
  C9: for every get-by-id call whose lookup the store answers: if the identifier names
  no record, the block throws the store's \<open>RowNotFound\<close> (not \<open>CustomErrorException\<close>),
  and the answer carries it; if the record exists, the answer is 200 with
  \<open>Registro retornado com sucesso\<close> and that record as data. In both cases the database is
  left as it was.
\<close>

theorem buscarPorId_resultado:
  assumes "falha cx ChFindOrFail = None"
  shows "(linha bd e (params_id cx) = None \<longrightarrow>
            fst (bloco_buscarPorId e cx bd) = Inl RowNotFound
          \<and> buscarPorId e cx bd = (Inr \<lparr>http_status = 500, body = \<lparr>status = False,
               message = Bruto RowNotFound, data = None\<rparr>\<rparr>, bd))
       \<and> (\<forall>r. linha bd e (params_id cx) = Some r \<longrightarrow>
            buscarPorId e cx bd = (Inr \<lparr>http_status = 200, body = \<lparr>status = True,
               message = Texto ''Registro retornado com sucesso'',
               data = Some (Um (Instancia r))\<rparr>\<rparr>, bd))"
  using assms
  by (simp add: buscarPorId_def bloco_buscarPorId_def findOrFail_def acao_defs)

theorem buscarPorId_resultado_witness:
  "falha cx_anonimo ChFindOrFail = None \<and> falha cx_visita ChFindOrFail = None
   \<and> linha bd_exemplo HistoricoFinanceiro (params_id cx_anonimo) = None
   \<and> fst (bloco_buscarPorId HistoricoFinanceiro cx_anonimo bd_exemplo) = Inl RowNotFound
   \<and> buscarPorId HistoricoFinanceiro cx_anonimo bd_exemplo =
       (Inr \<lparr>http_status = 500, body = \<lparr>status = False,
          message = Bruto RowNotFound, data = None\<rparr>\<rparr>, bd_exemplo)
   \<and> linha bd_exemplo HistoricoFinanceiro (params_id cx_visita) = Some reg_inativo
   \<and> buscarPorId HistoricoFinanceiro cx_visita bd_exemplo =
       (Inr \<lparr>http_status = 200, body = \<lparr>status = True,
          message = Texto ''Registro retornado com sucesso'',
          data = Some (Um (Instancia reg_inativo))\<rparr>\<rparr>, bd_exemplo)"
proof -
  have f: "falha cx_anonimo ChFindOrFail = None" "falha cx_visita ChFindOrFail = None"
    by (rule falha_exemplo)+
  have n: "linha bd_exemplo HistoricoFinanceiro (params_id cx_anonimo) = None"
    by (simp add: cx_anonimo_def linha_exemplo)
  have s: "linha bd_exemplo HistoricoFinanceiro (params_id cx_visita) = Some reg_inativo"
    by (simp add: cx_visita_def linha_exemplo)
  show ?thesis
    using f n s buscarPorId_resultado [OF f(1), of bd_exemplo HistoricoFinanceiro]
      buscarPorId_resultado [OF f(2), of bd_exemplo HistoricoFinanceiro]
    by simp
qed

section \<open>The catch of every method\<close>

text \<open>
  C2: for each of the six operations of each entity, whatever error the block of the
  operation throws (a validation failure, the store's \<open>RowNotFound\<close>, the
  \<open>CustomErrorException\<close> of the lists, or any other), the operation answers HTTP 500
  with \<open>status = False\<close>, the error caught as message and no data, on the database as the
  block left it. No kind of error gets another code.
\<close>

theorem captura_geral:
  assumes "fst (bloco opr e cx bd) = Inl err"
  shows "executar opr e cx bd =
     (Inr \<lparr>http_status = 500, body = \<lparr>status = False, message = Bruto err, data = None\<rparr>\<rparr>,
      snd (bloco opr e cx bd))"
  using assms
  by (cases opr; cases "bloco opr e cx bd")
     (auto simp: metodo_defs tentar_def enviar_def retornar_def)

text \<open>One error of each kind, each in another operation.\<close>

theorem captura_geral_witness:
  "fst (bloco Cadastrar HistoricoFinanceiro cx_anonimo bd_exemplo)
     = Inl (ValidationException ''documento'')
   \<and> fst (executar Cadastrar HistoricoFinanceiro cx_anonimo bd_exemplo) =
       Inr \<lparr>http_status = 500, body = \<lparr>status = False,
         message = Bruto (ValidationException ''documento''), data = None\<rparr>\<rparr>
   \<and> fst (bloco BuscarPorId HistoricoFinanceiro cx_anonimo bd_exemplo) = Inl RowNotFound
   \<and> fst (executar BuscarPorId HistoricoFinanceiro cx_anonimo bd_exemplo) =
       Inr \<lparr>http_status = 500, body = \<lparr>status = False,
         message = Bruto RowNotFound, data = None\<rparr>\<rparr>
   \<and> fst (bloco BuscarTodos ArquivoAssociado cx_ana bd_exemplo)
       = Inl (CustomErrorException ''Nenhum registro encontrado'' 404)
   \<and> fst (executar BuscarTodos ArquivoAssociado cx_ana bd_exemplo) =
       Inr \<lparr>http_status = 500, body = \<lparr>status = False,
         message = Bruto (CustomErrorException ''Nenhum registro encontrado'' 404),
         data = None\<rparr>\<rparr>
   \<and> fst (bloco Ativar HistoricoFinanceiro cx_fora bd_exemplo) = Inl (OutroErro ''ECONNREFUSED'')
   \<and> fst (executar Ativar HistoricoFinanceiro cx_fora bd_exemplo) =
       Inr \<lparr>http_status = 500, body = \<lparr>status = False,
         message = Bruto (OutroErro ''ECONNREFUSED''), data = None\<rparr>\<rparr>"
proof -
  have 1: "fst (bloco Cadastrar HistoricoFinanceiro cx_anonimo bd_exemplo)
            = Inl (ValidationException ''documento'')"
    by (simp add: bloco_cadastrar_def acao_defs cx_anonimo_def)
  have 2: "fst (bloco BuscarPorId HistoricoFinanceiro cx_anonimo bd_exemplo) = Inl RowNotFound"
    by (simp add: bloco_buscarPorId_def findOrFail_def linha_def acao_defs exemplo_defs)
  have 3: "fst (bloco BuscarTodos ArquivoAssociado cx_ana bd_exemplo)
            = Inl (CustomErrorException ''Nenhum registro encontrado'' 404)"
    by (simp add: bloco_buscarTodos_def query_def acao_defs falha_exemplo bd_exemplo_def)
  have 4: "fst (bloco Ativar HistoricoFinanceiro cx_fora bd_exemplo)
            = Inl (OutroErro ''ECONNREFUSED'')"
    by (simp add: bloco_ativar_def findOrFail_def save_def acao_defs exemplo_defs linha_def)
  show ?thesis
    using 1 2 3 4 captura_geral [OF 1] captura_geral [OF 2] captura_geral [OF 3]
      captura_geral [OF 4]
    by simp
qed

section \<open>Totality\<close>

text \<open>
  C10: each of the six operations of each entity, on every request, every answer of the
  validator, of the session and of the store (errors included) and every database, returns
  a response and throws nothing; the body of the response is an envelope with its boolean
  \<open>status\<close> and its \<open>message\<close>, \<open>status\<close> being false exactly when the code is 500; the
  code is 200, 201 or 500 and never 404. Yet the lists do build an exception with the
  code 404: list-all on an empty table throws it inside its block.
\<close>

theorem executar_total:
  "(\<exists>r bd'. executar opr e cx bd = (Inr r, bd')
       \<and> http_status r \<in> {200, 201, 500} \<and> http_status r \<noteq> 404
       \<and> status (body r) = (http_status r \<noteq> 500))
   \<and> fst (bloco BuscarTodos HistoricoFinanceiro cx_ana bd_vazio)
       = Inl (CustomErrorException ''Nenhum registro encontrado'' 404)"
proof
  show "\<exists>r bd'. executar opr e cx bd = (Inr r, bd')
       \<and> http_status r \<in> {200, 201, 500} \<and> http_status r \<noteq> 404
       \<and> status (body r) = (http_status r \<noteq> 500)"
    by (cases opr)
       (auto simp: metodo_defs bloco_defs store_defs espalhar_def acao_defs
          split: option.splits sum.splits prod.splits if_splits)
  show "fst (bloco BuscarTodos HistoricoFinanceiro cx_ana bd_vazio)
       = Inl (CustomErrorException ''Nenhum registro encontrado'' 404)"
    by (simp add: bloco_buscarTodos_def query_def acao_defs exemplo_defs)
qed

end
